theory Spec2Isabelle
  imports Main
begin

section \<open>Python string primitives used by the client\<close>

text \<open>
  A Python \<open>str\<close> is modelled by the list of bytes of its UTF-8 encoding, one
  \<open>char\<close> per byte. The slash and the percent sign are ASCII and UTF-8 is
  self-synchronising, so stripping, splitting and joining on the slash agree on bytes
  and on code points. A \<open>str\<close> with a lone surrogate has no UTF-8 encoding and is
  not a value of this model; \<open>quote\<close> raises \<open>UnicodeEncodeError\<close> on it.
\<close>

definition startswith :: "string \<Rightarrow> string \<Rightarrow> bool" where
  "startswith s pre = (take (length pre) s = pre)"

definition endswith :: "string \<Rightarrow> string \<Rightarrow> bool" where
  "endswith s suf = startswith (rev s) (rev suf)"

definition lstrip :: "string \<Rightarrow> string \<Rightarrow> string" where
  "lstrip s chars = dropWhile (\<lambda>c. c \<in> set chars) s"

definition rstrip :: "string \<Rightarrow> string \<Rightarrow> string" where
  "rstrip s chars = rev (dropWhile (\<lambda>c. c \<in> set chars) (rev s))"

definition strip :: "string \<Rightarrow> string \<Rightarrow> string" where
  "strip s chars = rstrip (lstrip s chars) chars"

text \<open>\<open>s.split(sep)\<close> for a one-character separator: never the empty list.\<close>

fun split :: "string \<Rightarrow> char \<Rightarrow> string list" where
  "split [] sep = [[]]"
| "split (c # cs) sep =
     (if c = sep then [] # split cs sep
      else (case split cs sep of
              [] \<Rightarrow> [[c]]
            | part # parts \<Rightarrow> (c # part) # parts))"

text \<open>\<open>sep.join(parts)\<close>.\<close>

fun join :: "string \<Rightarrow> string list \<Rightarrow> string" where
  "join sep [] = []"
| "join sep [part] = part"
| "join sep (part # parts) = part @ sep @ join sep parts"

section \<open>\<open>urllib.parse.quote\<close> and \<open>unquote\<close>\<close>

text \<open>
  \<open>quote(string, safe)\<close> encodes the string as UTF-8 and keeps a byte when it is one
  of the always-safe characters or of \<open>safe\<close>; every other byte becomes a percent
  sign and two upper-case hexadecimal digits.
\<close>

definition always_safe :: string where
  "always_safe = ''ABCDEFGHIJKLMNOPQRSTUVWXYZabcdefghijklmnopqrstuvwxyz0123456789_.-~''"

definition hexdig_upper :: "nat \<Rightarrow> char" where
  "hexdig_upper n = ''0123456789ABCDEF'' ! (n mod 16)"

definition quoter :: "string \<Rightarrow> char \<Rightarrow> string" where
  "quoter safe c =
     (if c \<in> set (always_safe @ safe) then [c]
      else [CHR ''%'', hexdig_upper (of_char c div 16), hexdig_upper (of_char c mod 16)])"

definition quote :: "string \<Rightarrow> string \<Rightarrow> string" where
  "quote s safe = concat (map (quoter safe) s)"

text \<open>
  \<open>unquote\<close> on the byte level (\<open>unquote_to_bytes\<close>): a percent sign followed by
  two hexadecimal digits of either case becomes the byte they denote; every other
  character stays. The library's \<open>unquote\<close> on text then decodes the bytes as
  UTF-8 and replaces what is not valid by U+FFFD; the two agree where the decoded
  bytes are valid UTF-8, as they are for the output of \<open>quote\<close>. The listing
  takes the library's function as a parameter.
\<close>

definition hexval :: "char \<Rightarrow> nat option" where
  "hexval c = map_of (zip ''0123456789ABCDEFabcdef''
                 [0, 1, 2, 3, 4, 5, 6, 7, 8, 9, 10, 11, 12, 13, 14, 15, 10, 11, 12, 13, 14, 15]) c"

definition hextobyte :: "char \<Rightarrow> char \<Rightarrow> char option" where
  "hextobyte a b =
     (case hexval a of
        None \<Rightarrow> None
      | Some x \<Rightarrow> (case hexval b of
                    None \<Rightarrow> None
                  | Some y \<Rightarrow> Some (char_of (16 * x + y))))"

fun unquote :: "string \<Rightarrow> string" where
  "unquote (c # a # b # rest) =
     (if c = CHR ''%'' then
        (case hextobyte a b of
           Some byte \<Rightarrow> byte # unquote rest
         | None \<Rightarrow> c # unquote (a # b # rest))
      else c # unquote (a # b # rest))"
| "unquote (c # cs) = c # unquote cs"
| "unquote [] = []"

section \<open>HTTP and XML values\<close>

record request =
  meth :: string
  url :: string
  headers :: "(string \<times> string) list"
  data :: "string option"

record response =
  status_code :: int
  content :: string

text \<open>
  The exceptions the client raises or lets through. \<open>RequestException\<close> stands for
  the network-level failures of the session; \<open>HTTPError\<close> is the one
  \<open>raise_for_status\<close> raises and carries the response.
\<close>

datatype error =
    ValueError
  | FileNotFoundError
  | RequestException
  | HTTPError response
  | ParseError

text \<open>An \<open>ElementTree\<close> element: its tag, its text and its children in order.\<close>

datatype xml = Element (tag: string) (el_text: "string option") (children: "xml list")

definition dav :: "string \<Rightarrow> string" where
  "dav local_name = ''{DAV:}'' @ local_name"

definition findall :: "xml \<Rightarrow> string \<Rightarrow> xml list" where
  "findall el t = filter (\<lambda>ch. tag ch = t) (children el)"

definition find_el :: "xml \<Rightarrow> string \<Rightarrow> xml option" where
  "find_el el t = List.find (\<lambda>ch. tag ch = t) (children el)"

record item =
  href :: string
  name :: string
  is_dir :: bool

section \<open>The client\<close>

record client =
  base_url :: string
  username :: string
  auth :: "string \<times> string"
  dav_base_path :: string

definition init :: "string \<Rightarrow> string \<Rightarrow> string \<Rightarrow> error + client" where
  "init nextcloud_url user password =
     (if nextcloud_url = [] then Inl ValueError
      else Inr \<lparr>base_url = rstrip nextcloud_url ''/'',
                username = user,
                auth = (user, password),
                dav_base_path = ''/remote.php/dav/files/'' @ user\<rparr>)"

definition encoded_path :: "string \<Rightarrow> string" where
  "encoded_path remote_path =
     join ''/'' (map (\<lambda>part. quote part []) (split (strip remote_path ''/'') (CHR ''/'')))"

definition build_url :: "client \<Rightarrow> string \<Rightarrow> string" where
  "build_url self remote_path =
     (let remote_path' = (if \<not> startswith remote_path ''/'' then ''/'' @ remote_path
                          else remote_path)
      in base_url self @ dav_base_path self @ ''/'' @ encoded_path remote_path')"

text \<open>
  \<open>Response.raise_for_status\<close> of the requests library raises for the client and
  server error classes only.
\<close>

definition raise_for_status :: "response \<Rightarrow> error + unit" where
  "raise_for_status r =
     (if 400 \<le> status_code r \<and> status_code r < 600 then Inl (HTTPError r) else Inr ())"

definition handle_response :: "response \<Rightarrow> int list \<Rightarrow> error + unit" where
  "handle_response r success_codes =
     (if status_code r \<notin> set success_codes then raise_for_status r else Inr ())"

subsection \<open>upload_file\<close>

text \<open>
  The local file system is a map from paths to contents, \<open>guess_type\<close> is
  \<open>mimetypes.guess_type\<close>, and \<open>session\<close> performs one request: it returns the
  response or raises. A path is either missing or a readable file; one that exists
  and cannot be opened, where \<open>open\<close> raises before any request, is not modelled.
\<close>

definition put_request :: "client \<Rightarrow> (string \<Rightarrow> string option) \<Rightarrow> string \<Rightarrow> string \<Rightarrow> string \<Rightarrow> request" where
  "put_request self guess_type local_file_path file_data remote_path =
     \<lparr>meth = ''PUT'',
      url = build_url self remote_path,
      headers = [(''Content-Type'',
                  (case guess_type local_file_path of
                     None \<Rightarrow> ''application/octet-stream''
                   | Some content_type \<Rightarrow>
                       if content_type = [] then ''application/octet-stream'' else content_type))],
      data = Some file_data\<rparr>"

definition upload_file ::
  "client \<Rightarrow> (string \<Rightarrow> string option) \<Rightarrow> (string \<Rightarrow> string option) \<Rightarrow>
   (request \<Rightarrow> error + response) \<Rightarrow> string \<Rightarrow> string \<Rightarrow> error + bool" where
  "upload_file self fs guess_type session local_file_path remote_path =
     (case fs local_file_path of
        None \<Rightarrow> Inl FileNotFoundError
      | Some file_data \<Rightarrow>
          (case session (put_request self guess_type local_file_path file_data remote_path) of
             Inl e \<Rightarrow> Inl e
           | Inr resp \<Rightarrow>
               (case handle_response resp [200, 201, 204] of
                  Inl e \<Rightarrow> Inl e
                | Inr _ \<Rightarrow> Inr True)))"

subsection \<open>create_directory\<close>

definition mkcol_request :: "client \<Rightarrow> string \<Rightarrow> request" where
  "mkcol_request self remote_path =
     (let url_path = (if remote_path \<noteq> ''/'' \<and> \<not> endswith remote_path ''/''
                      then remote_path @ ''/'' else remote_path)
      in \<lparr>meth = ''MKCOL'', url = build_url self url_path, headers = [], data = None\<rparr>)"

text \<open>
  The result is Python's return value: \<open>Some True\<close> for \<open>True\<close>, \<open>None\<close> for
  the \<open>None\<close> of a function that ends without a return statement.
\<close>

definition create_directory ::
  "client \<Rightarrow> (request \<Rightarrow> error + response) \<Rightarrow> string \<Rightarrow> error + bool option" where
  "create_directory self session remote_path =
     (case session (mkcol_request self remote_path) of
        Inl e \<Rightarrow> Inl e
      | Inr resp \<Rightarrow>
          if status_code resp = 201 then Inr (Some True)
          else if status_code resp = 405 then Inr (Some True)
          else (case handle_response resp [201, 405] of
                  Inl e \<Rightarrow> Inl e
                | Inr _ \<Rightarrow> Inr None))"

subsection \<open>list_directory\<close>

definition propfind_request :: "client \<Rightarrow> string \<Rightarrow> request" where
  "propfind_request self remote_path =
     \<lparr>meth = ''PROPFIND'', url = build_url self remote_path,
      headers = [(''Depth'', ''1'')], data = None\<rparr>"

definition base_href_path_check :: "client \<Rightarrow> string \<Rightarrow> string" where
  "base_href_path_check self remote_path =
     (let normalized_remote_path = strip remote_path ''/''
      in if normalized_remote_path \<noteq> [] then dav_base_path self @ ''/'' @ normalized_remote_path
         else dav_base_path self)"

definition is_collection :: "xml \<Rightarrow> bool" where
  "is_collection propstat_element =
     (case find_el propstat_element (dav ''prop'') of
        None \<Rightarrow> False
      | Some prop_element \<Rightarrow>
          (case find_el prop_element (dav ''resourcetype'') of
             None \<Rightarrow> False
           | Some resourcetype_element \<Rightarrow>
               find_el resourcetype_element (dav ''collection'') \<noteq> None))"

text \<open>
  The loop over the response elements. \<open>unq\<close> is the library's \<open>unquote\<close> on text;
  an element without href or propstat is skipped, and so is one whose href has no text
  (\<open>unquote(None)\<close> raises, and the loop catches it).
\<close>

fun collect_items :: "(string \<Rightarrow> string) \<Rightarrow> string \<Rightarrow> xml list \<Rightarrow> item list" where
  "collect_items unq base [] = []"
| "collect_items unq base (resp_element # rest) =
     (case find_el resp_element (dav ''href'') of
        None \<Rightarrow> collect_items unq base rest
      | Some href_element \<Rightarrow>
          (case find_el resp_element (dav ''propstat'') of
             None \<Rightarrow> collect_items unq base rest
           | Some propstat_element \<Rightarrow>
               (case el_text href_element of
                  None \<Rightarrow> collect_items unq base rest
                | Some t \<Rightarrow>
                    (let h = unq t in
                     if rstrip h ''/'' = base then collect_items unq base rest
                     else \<lparr>href = h,
                           name = last (split (rstrip h ''/'') (CHR ''/'')),
                           is_dir = is_collection propstat_element\<rparr>
                          # collect_items unq base rest))))"

text \<open>
  \<open>fromstring\<close> is \<open>ElementTree.fromstring\<close>: \<open>None\<close> when the body is not
  well-formed XML, where the library raises \<open>ParseError\<close>.
\<close>

definition list_directory ::
  "client \<Rightarrow> (string \<Rightarrow> xml option) \<Rightarrow> (string \<Rightarrow> string) \<Rightarrow>
   (request \<Rightarrow> error + response) \<Rightarrow> string \<Rightarrow> error + item list" where
  "list_directory self fromstring unq session remote_path =
     (case session (propfind_request self remote_path) of
        Inl e \<Rightarrow> Inl e
      | Inr resp \<Rightarrow>
          if status_code resp = 404 then Inr []
          else (case handle_response resp [207] of
                  Inl e \<Rightarrow> Inl e
                | Inr _ \<Rightarrow>
                    (case fromstring (content resp) of
                       None \<Rightarrow> Inl ParseError
                     | Some root \<Rightarrow>
                         Inr (collect_items unq (base_href_path_check self remote_path)
                                (findall root (dav ''response''))))))"

subsection \<open>delete\<close>

definition delete_request :: "client \<Rightarrow> string \<Rightarrow> request" where
  "delete_request self remote_path =
     \<lparr>meth = ''DELETE'', url = build_url self remote_path, headers = [], data = None\<rparr>"

definition delete ::
  "client \<Rightarrow> (request \<Rightarrow> error + response) \<Rightarrow> string \<Rightarrow> error + bool" where
  "delete self session remote_path =
     (case session (delete_request self remote_path) of
        Inl e \<Rightarrow> Inl e
      | Inr resp \<Rightarrow>
          if status_code resp = 404 then Inr False
          else (case handle_response resp [204] of
                  Inl e \<Rightarrow> Inl e
                | Inr _ \<Rightarrow> Inr True))"

section \<open>Example data\<close>

definition demo_client :: client where
  "demo_client = \<lparr>base_url = ''http://localhost:8080'', username = ''u'',
                   auth = (''u'', ''pw''), dav_base_path = ''/remote.php/dav/files/u''\<rparr>"

text \<open>A session whose server answers every request with the given status.\<close>

definition answer :: "int \<Rightarrow> request \<Rightarrow> error + response" where
  "answer code req = Inr \<lparr>status_code = code, content = ''body''\<rparr>"

definition response_element :: "string \<Rightarrow> xml list \<Rightarrow> xml" where
  "response_element h resourcetype =
     Element (dav ''response'') None
       [Element (dav ''href'') (Some h) [],
        Element (dav ''propstat'') None
          [Element (dav ''prop'') None
             [Element (dav ''resourcetype'') None resourcetype]]]"

definition demo_listing :: xml where
  "demo_listing =
     Element (dav ''multistatus'') None
       [response_element ''/remote.php/dav/files/u/docs/'' [Element (dav ''collection'') None []],
        response_element ''/remote.php/dav/files/u/docs/my%20report.pdf'' [],
        response_element ''/remote.php/dav/files/u/docs/sub/'' [Element (dav ''collection'') None []]]"

definition demo_items :: "item list" where
  "demo_items =
     [\<lparr>href = ''/remote.php/dav/files/u/docs/my report.pdf'',
       name = ''my report.pdf'', is_dir = False\<rparr>,
      \<lparr>href = ''/remote.php/dav/files/u/docs/sub/'', name = ''sub'', is_dir = True\<rparr>]"

definition slash_listing :: xml where
  "slash_listing = Element (dav ''multistatus'') None [response_element ''/'' []]"

section \<open>Stripping, splitting and joining\<close>

lemma rstrip_snoc: "c \<in> set chars \<Longrightarrow> rstrip (s @ [c]) chars = rstrip s chars"
  by (simp add: rstrip_def)

lemma lstrip_cons: "c \<in> set chars \<Longrightarrow> lstrip (c # s) chars = lstrip s chars"
  by (simp add: lstrip_def)

lemma strip_cons: "c \<in> set chars \<Longrightarrow> strip (c # s) chars = strip s chars"
  by (simp add: strip_def lstrip_cons)

lemma strip_snoc:
  assumes c: "c \<in> set chars"
  shows "strip (s @ [c]) chars = strip s chars"
proof (cases "\<forall>x\<in>set s. x \<in> set chars")
  case True
  with c have "lstrip (s @ [c]) chars = []" "lstrip s chars = []"
    by (auto simp: lstrip_def)
  then show ?thesis by (simp add: strip_def)
next
  case False
  then have "lstrip (s @ [c]) chars = lstrip s chars @ [c]"
    by (auto simp: lstrip_def dropWhile_append1)
  with c show ?thesis by (simp add: strip_def rstrip_snoc)
qed

lemma last_rstrip: "rstrip s chars \<noteq> [] \<Longrightarrow> last (rstrip s chars) \<notin> set chars"
  using hd_dropWhile [of "\<lambda>c. c \<in> set chars" "rev s"]
  by (simp add: rstrip_def last_rev)

lemma rstrip_eq_Nil: "rstrip s chars = [] \<longleftrightarrow> set s \<subseteq> set chars"
  by (auto simp: rstrip_def)

lemma split_not_Nil: "split s sep \<noteq> []"
  by (induction s) (auto split: list.splits)




lemma join_split: "join [sep] (split s sep) = s"
proof (induction s)
  case Nil
  then show ?case by simp
next
  case (Cons c cs)
  show ?case
  proof (cases "c = sep")
    case True
    with Cons show ?thesis
      by (cases "split cs sep") (simp_all add: split_not_Nil)
  next
    case False
    obtain part parts where sp: "split cs sep = part # parts"
      using split_not_Nil [of cs sep] by (cases "split cs sep") auto
    with Cons False show ?thesis
      by (cases parts) simp_all
  qed
qed

lemma last_split_eq_Nil: "last (split s sep) = [] \<longleftrightarrow> s = [] \<or> last s = sep"
proof (induction s)
  case Nil
  then show ?case by simp
next
  case (Cons c cs)
  obtain part parts where sp: "split cs sep = part # parts"
    using split_not_Nil [of cs sep] by (cases "split cs sep") auto
  show ?case
  proof (cases "cs = []")
    case True
    then show ?thesis by auto
  next
    case False
    with Cons sp join_split [of sep cs] show ?thesis by (auto split: if_splits)
  qed
qed

lemma last_filter_keep:
  assumes "xs \<noteq> []" and "P (last xs)"
  shows "last (filter P xs) = last xs"
proof -
  have "filter P (butlast xs @ [last xs]) = filter P (butlast xs) @ [last xs]"
    using assms(2) by simp
  with assms(1) show ?thesis by simp
qed

section \<open>Percent-encoding round trip\<close>










section \<open>URL construction\<close>

lemma build_url_strip:
  "build_url self p = base_url self @ dav_base_path self @ ''/'' @ encoded_path p"
  by (simp add: build_url_def encoded_path_def Let_def strip_cons)

lemma encoded_path_strip_cong:
  "strip q ''/'' = strip p ''/'' \<Longrightarrow> encoded_path q = encoded_path p"
  by (simp add: encoded_path_def)

lemma encoded_path_cons_slash: "encoded_path (CHR ''/'' # p) = encoded_path p"
  by (simp add: encoded_path_def strip_cons)

lemma encoded_path_snoc_slash: "encoded_path (p @ ''/'') = encoded_path p"
  by (simp add: encoded_path_def strip_snoc)









lemma encoded_path_example:
  "encoded_path ''/my docs/a&b?c#d.txt'' = ''my%20docs/a%26b%3Fc%23d.txt''"
  by code_simp


text \<open>
  C2, as the code has it. For the root path \<open>/\<close> the stripped path is empty, its one
  segment is the empty string, and \<open>build_url\<close> yields base URL, DAV root and the
  slash of the format string: the URL ends in a slash.
\<close>

theorem build_url_root:
  "build_url self ''/'' = base_url self @ dav_base_path self @ ''/''"
  by (simp add: build_url_def encoded_path_def strip_def lstrip_def rstrip_def
      startswith_def quote_def)

text \<open>
  C2 as stated fails: for the example client the URL of the root path is not base URL
  plus DAV root, it has a trailing slash.
\<close>

theorem build_url_root_counterexample:
  "build_url demo_client ''/'' = ''http://localhost:8080/remote.php/dav/files/u/''
   \<and> build_url demo_client ''/'' \<noteq> base_url demo_client @ dav_base_path demo_client"
  by (simp add: build_url_def encoded_path_def strip_def lstrip_def rstrip_def
      startswith_def quote_def demo_client_def)

text \<open>
  C10. A trailing or a leading slash added to a remote path does not change the URL
  \<open>build_url\<close> produces. So the slash \<open>create_directory\<close> appends is without
  effect on the request URL, and the MKCOL, PUT and DELETE requests for one path all
  go to \<open>build_url\<close> of that path.
\<close>

theorem build_url_slash_invariant:
  "build_url self (p @ ''/'') = build_url self p
   \<and> build_url self (''/'' @ p) = build_url self p
   \<and> url (mkcol_request self p) = build_url self p
   \<and> url (put_request self guess_type local_file_path file_data p) = build_url self p
   \<and> url (delete_request self p) = build_url self p"
  by (simp add: build_url_strip encoded_path_cons_slash encoded_path_snoc_slash
      mkcol_request_def put_request_def delete_request_def Let_def)

section \<open>Status codes\<close>

text \<open>
  C1, at failing inputs. A status outside the success codes that is not a client or
  server error is not raised by \<open>handle_response\<close>: \<open>upload_file\<close> returns
  \<open>True\<close> on 304 and on 202, and \<open>create_directory\<close> ends without raising on 304
  and on 200, returning \<open>None\<close>.
\<close>

theorem upload_mkdir_unexpected_status:
  "upload_file demo_client (\<lambda>_. Some ''data'') (\<lambda>_. None) (answer 304) ''f.txt'' ''/f.txt'' = Inr True
   \<and> upload_file demo_client (\<lambda>_. Some ''data'') (\<lambda>_. None) (answer 202) ''f.txt'' ''/f.txt'' = Inr True
   \<and> create_directory demo_client (answer 304) ''/d'' = Inr None
   \<and> create_directory demo_client (answer 200) ''/d'' = Inr None"
  by (simp add: upload_file_def create_directory_def answer_def handle_response_def
      raise_for_status_def)

text \<open>
  C5, at failing inputs. \<open>delete\<close> returns \<open>True\<close> without raising when the server
  answers 200 or 304, statuses other than 204 and 404.
\<close>

theorem delete_unexpected_status:
  "delete demo_client (answer 200) ''/f.txt'' = Inr True
   \<and> delete demo_client (answer 304) ''/f.txt'' = Inr True"
  by (simp add: delete_def answer_def handle_response_def raise_for_status_def)

text \<open>
  C6. When the server answers the PROPFIND request with 404, \<open>list_directory\<close>
  returns the empty list and raises nothing.
\<close>

theorem list_directory_not_found:
  assumes "session (propfind_request self remote_path) = Inr resp"
    and "status_code resp = 404"
  shows "list_directory self fromstring unq session remote_path = Inr []"
  using assms by (simp add: list_directory_def)

theorem list_directory_not_found_witness:
  "list_directory demo_client (\<lambda>_. None) unquote (answer 404) ''/missing'' = Inr []"
  using list_directory_not_found [of "answer 404" demo_client "''/missing''"
      "\<lparr>status_code = 404, content = ''body''\<rparr>" "\<lambda>_. None" unquote]
  by (simp add: answer_def)

text \<open>
  C7. \<open>create_directory\<close> returns \<open>True\<close> when the server answers 201 and when it
  answers 405; a 405 is not an error.
\<close>

theorem create_directory_exists:
  assumes "session (mkcol_request self remote_path) = Inr resp"
    and "status_code resp = 201 \<or> status_code resp = 405"
  shows "create_directory self session remote_path = Inr (Some True)"
  using assms by (auto simp: create_directory_def)

theorem create_directory_exists_witness:
  "create_directory demo_client (answer 405) ''/docs'' = Inr (Some True)
   \<and> create_directory demo_client (answer 201) ''/docs'' = Inr (Some True)"
  using create_directory_exists [of "answer 405" demo_client "''/docs''"
      "\<lparr>status_code = 405, content = ''body''\<rparr>"]
    create_directory_exists [of "answer 201" demo_client "''/docs''"
      "\<lparr>status_code = 201, content = ''body''\<rparr>"]
  by (simp add: answer_def)

text \<open>
  C9. When the server answers 207 and the body is not well-formed XML,
  \<open>list_directory\<close> raises \<open>ParseError\<close>. That error is none of the
  \<open>HTTPError\<close> values, and the status check never raises it.
\<close>

theorem list_directory_parse_error:
  assumes "session (propfind_request self remote_path) = Inr resp"
    and "status_code resp = 207"
    and "fromstring (content resp) = None"
  shows "list_directory self fromstring unq session remote_path = Inl ParseError
         \<and> (\<forall>r. ParseError \<noteq> HTTPError r)
         \<and> (\<forall>r codes. handle_response r codes \<noteq> Inl ParseError)"
  using assms
  by (auto simp: list_directory_def handle_response_def raise_for_status_def)

theorem list_directory_parse_error_witness:
  "list_directory demo_client (\<lambda>_. None) unquote (answer 207) ''/docs'' = Inl ParseError
   \<and> list_directory demo_client (\<lambda>_. None) unquote (answer 500) ''/docs''
       = Inl (HTTPError \<lparr>status_code = 500, content = ''body''\<rparr>)"
  using list_directory_parse_error [of "answer 207" demo_client "''/docs''"
      "\<lparr>status_code = 207, content = ''body''\<rparr>" "\<lambda>_. None" unquote]
  by (simp add: answer_def list_directory_def handle_response_def raise_for_status_def)

section \<open>Directory listings\<close>

lemma collect_items_entry:
  "e \<in> set (collect_items unq base rs) \<Longrightarrow>
   rstrip (href e) ''/'' \<noteq> base \<and> name e = last (split (rstrip (href e) ''/'') (CHR ''/''))"
  by (induction rs) (auto split: option.splits if_splits simp: Let_def)

lemma base_href_path_check_strip_cong:
  "strip q ''/'' = strip p ''/'' \<Longrightarrow> base_href_path_check self q = base_href_path_check self p"
  by (simp add: base_href_path_check_def)

lemma propfind_request_strip_cong:
  "strip q ''/'' = strip p ''/'' \<Longrightarrow> propfind_request self q = propfind_request self p"
  using encoded_path_strip_cong [of q p]
  by (simp add: propfind_request_def build_url_strip)

lemma list_directory_strip_cong:
  assumes "strip q ''/'' = strip p ''/''"
  shows "list_directory self fromstring unq session q =
         list_directory self fromstring unq session p"
  unfolding list_directory_def propfind_request_strip_cong [OF assms]
    base_href_path_check_strip_cong [OF assms]
  by (rule refl)

lemma list_directory_entry:
  assumes "list_directory self fromstring unq session p = Inr items" and "e \<in> set items"
  shows "rstrip (href e) ''/'' \<noteq> base_href_path_check self p \<and>
         name e = last (split (rstrip (href e) ''/'') (CHR ''/''))"
  using assms
  by (auto simp: list_directory_def dest: collect_items_entry
      split: sum.splits if_splits option.splits)

lemma demo_listing_docs:
  "list_directory demo_client (\<lambda>_. Some demo_listing) unquote (answer 207) ''/docs'' =
     Inr demo_items"
  by code_simp

text \<open>
  C3. Whatever the response and the queried path, no entry of the result of
  \<open>list_directory\<close> has a decoded href that, without its trailing slashes, equals the
  DAV root followed by the stripped queried path. That path of the directory itself,
  and the whole result, are the same for every request path with the same stripped
  form, so with a leading or a trailing slash added.
\<close>

theorem list_directory_excludes_self:
  assumes "list_directory self fromstring unq session remote_path = Inr items"
  shows "(\<forall>e \<in> set items. rstrip (href e) ''/'' \<noteq> base_href_path_check self remote_path)
         \<and> (\<forall>q. strip q ''/'' = strip remote_path ''/'' \<longrightarrow>
                base_href_path_check self q = base_href_path_check self remote_path
                \<and> list_directory self fromstring unq session q = Inr items)
         \<and> base_href_path_check self (''/'' @ remote_path) = base_href_path_check self remote_path
         \<and> base_href_path_check self (remote_path @ ''/'') = base_href_path_check self remote_path
         \<and> list_directory self fromstring unq session (''/'' @ remote_path) = Inr items
         \<and> list_directory self fromstring unq session (remote_path @ ''/'') = Inr items"
proof -
  have a: "\<forall>e \<in> set items. rstrip (href e) ''/'' \<noteq> base_href_path_check self remote_path"
    using list_directory_entry [OF assms] by blast
  have b: "base_href_path_check self q = base_href_path_check self remote_path
           \<and> list_directory self fromstring unq session q = Inr items"
    if "strip q ''/'' = strip remote_path ''/''" for q
    using assms list_directory_strip_cong [OF that, of self fromstring unq session]
      base_href_path_check_strip_cong [OF that, of self]
    by simp
  have c: "strip (''/'' @ remote_path) ''/'' = strip remote_path ''/''"
    by (simp add: strip_cons)
  have d: "strip (remote_path @ ''/'') ''/'' = strip remote_path ''/''"
    by (simp add: strip_snoc)
  have e: "\<forall>q. strip q ''/'' = strip remote_path ''/'' \<longrightarrow>
                base_href_path_check self q = base_href_path_check self remote_path
                \<and> list_directory self fromstring unq session q = Inr items"
    using b by blast
  from a e b [OF c] b [OF d] show ?thesis by blast
qed

theorem list_directory_excludes_self_witness:
  "list_directory demo_client (\<lambda>_. Some demo_listing) unquote (answer 207) ''/docs'' =
     Inr demo_items
   \<and> demo_items \<noteq> []
   \<and> list_all (\<lambda>e. rstrip (href e) ''/'' \<noteq> base_href_path_check demo_client ''/docs'')
        demo_items
   \<and> list_directory demo_client (\<lambda>_. Some demo_listing) unquote (answer 207)
        (''/docs'' @ ''/'') = Inr demo_items"
proof -
  note t = list_directory_excludes_self [OF demo_listing_docs]
  have ne: "demo_items \<noteq> []"
    by (simp add: demo_items_def)
  have a: "list_all (\<lambda>e. rstrip (href e) ''/'' \<noteq> base_href_path_check demo_client ''/docs'')
        demo_items"
    unfolding list_all_iff using t by (elim conjE)
  have b: "list_directory demo_client (\<lambda>_. Some demo_listing) unquote (answer 207)
        (''/docs'' @ ''/'') = Inr demo_items"
    using t by (elim conjE)
  from demo_listing_docs ne a b show ?thesis by (intro conjI)
qed

lemma name_of_href:
  "last (split (rstrip h ''/'') (CHR ''/'')) = [] \<longleftrightarrow> set h \<subseteq> {CHR ''/''}"
  using last_rstrip [of h "''/''"] rstrip_eq_Nil [of h "''/''"]
  by (auto simp: last_split_eq_Nil)

text \<open>
  C8, as the code has it. The name of every entry is the last segment of the decoded
  href without its trailing slashes. It is empty exactly when the decoded href
  consists of slashes only; otherwise it is the final non-empty segment.
\<close>

theorem list_directory_name:
  assumes "list_directory self fromstring unq session remote_path = Inr items"
    and "e \<in> set items"
  shows "name e = last (split (rstrip (href e) ''/'') (CHR ''/''))
         \<and> (name e = [] \<longleftrightarrow> set (href e) \<subseteq> {CHR ''/''})
         \<and> (\<not> set (href e) \<subseteq> {CHR ''/''} \<longrightarrow>
              name e \<noteq> [] \<and>
              name e = last (filter (\<lambda>seg. seg \<noteq> []) (split (rstrip (href e) ''/'') (CHR ''/''))))"
proof -
  have n: "name e = last (split (rstrip (href e) ''/'') (CHR ''/''))"
    using list_directory_entry [OF assms] by simp
  have z: "name e = [] \<longleftrightarrow> set (href e) \<subseteq> {CHR ''/''}"
    unfolding n by (rule name_of_href)
  have "name e \<noteq> [] \<longrightarrow>
          name e = last (filter (\<lambda>seg. seg \<noteq> []) (split (rstrip (href e) ''/'') (CHR ''/'')))"
    unfolding n by (simp add: last_filter_keep split_not_Nil)
  with n z show ?thesis by blast
qed

theorem list_directory_name_witness:
  "list_directory demo_client (\<lambda>_. Some demo_listing) unquote (answer 207) ''/docs'' =
     Inr demo_items
   \<and> \<lparr>href = ''/remote.php/dav/files/u/docs/sub/'', name = ''sub'', is_dir = True\<rparr>
       \<in> set demo_items
   \<and> ''sub'' = last (split (rstrip ''/remote.php/dav/files/u/docs/sub/'' ''/'') (CHR ''/''))
   \<and> ''sub'' = last (filter (\<lambda>seg. seg \<noteq> [])
        (split (rstrip ''/remote.php/dav/files/u/docs/sub/'' ''/'') (CHR ''/'')))"
proof -
  let ?e = "\<lparr>href = ''/remote.php/dav/files/u/docs/sub/'', name = ''sub'', is_dir = True\<rparr>"
  have m: "?e \<in> set demo_items"
    by (simp add: demo_items_def)
  note t = list_directory_name [OF demo_listing_docs m]
  have h: "\<not> set (href ?e) \<subseteq> {CHR ''/''}"
    by simp
  from t have a: "name ?e = last (split (rstrip (href ?e) ''/'') (CHR ''/''))"
    by (rule conjunct1)
  from t h have b: "name ?e = last (filter (\<lambda>seg. seg \<noteq> [])
        (split (rstrip (href ?e) ''/'') (CHR ''/'')))"
    by blast
  from a have a': "''sub'' = last (split (rstrip ''/remote.php/dav/files/u/docs/sub/'' ''/'') (CHR ''/''))"
    by (simp only: item.simps)
  from b have b': "''sub'' = last (filter (\<lambda>seg. seg \<noteq> [])
        (split (rstrip ''/remote.php/dav/files/u/docs/sub/'' ''/'') (CHR ''/'')))"
    by (simp only: item.simps)
  from demo_listing_docs m a' b' show ?thesis by (intro conjI)
qed

text \<open>
  C8 as stated fails: for a response element whose href is a single slash the entry
  is kept and its name is empty.
\<close>

theorem list_directory_name_counterexample:
  "list_directory demo_client (\<lambda>_. Some slash_listing) unquote (answer 207) ''/docs'' =
     Inr [\<lparr>href = ''/'', name = [], is_dir = False\<rparr>]"
  by code_simp

end
